theory Spec2Isabelle
  imports Main "HOL-Library.List_Lexorder"
begin

section \<open>Text\<close>

text \<open>
  A string of the program (\<open>ustring\<close>) is the sequence of its Unicode code points.
  Property names and the fixed messages of the handlers are HOL strings; \<open>lit\<close> gives the
  program string of an ASCII literal.
\<close>

type_synonym ustring = "nat list"

definition lit :: "string \<Rightarrow> ustring" where
  "lit s = map of_char s"

text \<open>\<open>String.prototype.trim\<close> strips white space and line terminators at both ends: TAB, LF,
  VT, FF, CR, SP, NBSP, the other space separators, LS, PS and U+FEFF.\<close>

definition is_space :: "nat \<Rightarrow> bool" where
  "is_space c = (c \<in> set [0x09, 0x0A, 0x0B, 0x0C, 0x0D, 0x20, 0xA0, 0x1680,
                            0x2000, 0x2001, 0x2002, 0x2003, 0x2004, 0x2005, 0x2006, 0x2007,
                            0x2008, 0x2009, 0x200A, 0x2028, 0x2029, 0x202F, 0x205F, 0x3000,
                            0xFEFF])"

definition trim :: "ustring \<Rightarrow> ustring" where
  "trim s = rev (dropWhile is_space (rev (dropWhile is_space s)))"

text \<open>Case folding, of \<open>toLowerCase\<close> and of \<open>ILIKE\<close>, is modelled on the ASCII letters; every
  other code point is left as it is.\<close>

definition lower_char :: "nat \<Rightarrow> nat" where
  "lower_char c = (if 65 \<le> c \<and> c \<le> 90 then c + 32 else c)"

definition toLowerCase :: "ustring \<Rightarrow> ustring" where
  "toLowerCase s = map lower_char s"

text \<open>\<open>String.prototype.includes\<close>: the argument occurs as a contiguous run.\<close>

fun startsWith :: "ustring \<Rightarrow> ustring \<Rightarrow> bool" where
  "startsWith s [] = True"
| "startsWith [] (q # qs) = False"
| "startsWith (x # xs) (q # qs) = (x = q \<and> startsWith xs qs)"

fun js_includes :: "ustring \<Rightarrow> ustring \<Rightarrow> bool" where
  "js_includes [] q = (q = [])"
| "js_includes (x # xs) q = (startsWith (x # xs) q \<or> js_includes xs q)"

section \<open>Values of the request: JSON and JavaScript coercions\<close>

text \<open>
  The handlers read \<open>await request.json()\<close> into an untyped \<open>body\<close> and destructure it, so
  a field may hold any JSON value.  \<open>JUndefined\<close> is what destructuring yields for a key the
  object does not have.  Numbers are taken as integers.
\<close>

datatype json =
    JUndefined
  | JNull
  | JBool bool
  | JNum int
  | JStr ustring
  | JArr "json list"
  | JObj "(string \<times> json) list"

text \<open>JavaScript truthiness, as used by \<open>!x\<close>, \<open>x || y\<close> and \<open>x && y\<close>.\<close>

fun truthy :: "json \<Rightarrow> bool" where
  "truthy JUndefined = False"
| "truthy JNull = False"
| "truthy (JBool b) = b"
| "truthy (JNum n) = (n \<noteq> 0)"
| "truthy (JStr s) = (s \<noteq> [])"
| "truthy (JArr xs) = True"
| "truthy (JObj kvs) = True"

text \<open>Property lookup on a parsed object; \<open>JSON.parse\<close> keeps the last of repeated keys.\<close>

definition get_prop :: "(string \<times> json) list \<Rightarrow> string \<Rightarrow> json" where
  "get_prop kvs k = (case map_of (rev kvs) k of None \<Rightarrow> JUndefined | Some v \<Rightarrow> v)"

text \<open>
  \<open>const { a, b } = body\<close>: destructuring \<open>null\<close> throws a TypeError (\<open>None\<close>), an
  object yields its properties, every other value yields \<open>undefined\<close> for the names used here.
\<close>

fun destructure :: "json \<Rightarrow> (string \<Rightarrow> json) option" where
  "destructure JUndefined = None"
| "destructure JNull = None"
| "destructure (JObj kvs) = Some (get_prop kvs)"
| "destructure v = Some (\<lambda>k. JUndefined)"

text \<open>What a handler's \<open>try\<close> block can throw: a TypeError of the script, or an error object
  of the database client (\<open>code\<close>, \<open>message\<close>).\<close>

datatype exn = TypeError | DbError string string

text \<open>\<open>x.trim()\<close>: only a string has the method; on anything else the call throws.\<close>

fun call_trim :: "json \<Rightarrow> exn + ustring" where
  "call_trim (JStr s) = Inr (trim s)"
| "call_trim v = Inl TypeError"

text \<open>\<open>x?.trim() || null\<close>: \<open>?.\<close> short-circuits on \<open>null\<close> and \<open>undefined\<close> only; the empty
  string is falsy and becomes \<open>null\<close>.\<close>

fun opt_trim :: "json \<Rightarrow> exn + ustring option" where
  "opt_trim JUndefined = Inr None"
| "opt_trim JNull = Inr None"
| "opt_trim (JStr s) = Inr (if trim s = [] then None else Some (trim s))"
| "opt_trim v = Inl TypeError"

text \<open>\<open>tags && Array.isArray(tags) ? tags : null\<close>.\<close>

fun tags_or_null :: "json \<Rightarrow> json list option" where
  "tags_or_null (JArr xs) = Some xs"
| "tags_or_null v = None"

definition bind_exn :: "exn + 'a \<Rightarrow> ('a \<Rightarrow> exn + 'b) \<Rightarrow> exn + 'b" where
  "bind_exn m f = (case m of Inl e \<Rightarrow> Inl e | Inr x \<Rightarrow> f x)"

section \<open>The store: tables, constraints, row-level security, triggers\<close>

text \<open>
  A value of type \<open>UUID\<close> is modelled as the natural number of its 128 bits, and
  \<open>gen_random_uuid()\<close> as an identifier no row has.  Timestamps are naturals.
\<close>

type_synonym uuid = nat
type_synonym timestamp = nat

text \<open>
  A path parameter reaches the database as text in a filter on a \<open>UUID\<close> column.  The
  database reads it as its UUID input does: an optional opening brace (123), sixteen bytes
  of two hexadecimal digits each, an optional hyphen (45) after every second byte but the
  last, the closing brace (125) if there was an opening one, and nothing more.  Any other text fails the
  statement with code 22P02.
\<close>

definition hex_digit :: "nat \<Rightarrow> nat option" where
  "hex_digit c =
     (if 48 \<le> c \<and> c \<le> 57 then Some (c - 48)
      else if 97 \<le> c \<and> c \<le> 102 then Some (c - 87)
      else if 65 \<le> c \<and> c \<le> 70 then Some (c - 55)
      else None)"

fun uuid_bytes :: "nat \<Rightarrow> ustring \<Rightarrow> (nat list \<times> ustring) option" where
  "uuid_bytes i (a # b # rest) =
     (if 16 \<le> i then Some ([], a # b # rest)
      else
        (case hex_digit a of
           None \<Rightarrow> None
         | Some x \<Rightarrow>
             (case hex_digit b of
                None \<Rightarrow> None
              | Some y \<Rightarrow>
                  map_option (\<lambda>(bs, r). ((16 * x + y) # bs, r))
                    (uuid_bytes (i + 1)
                       (if i mod 2 = 1 \<and> i < 15 \<and> take 1 rest = [45] then tl rest else rest)))))"
| "uuid_bytes i src = (if 16 \<le> i then Some ([], src) else None)"

definition uuid_in :: "ustring \<Rightarrow> uuid option" where
  "uuid_in src =
     (let braces = (take 1 src = [123]) in
      case uuid_bytes 0 (if braces then tl src else src) of
        None \<Rightarrow> None
      | Some (bs, r) \<Rightarrow>
          if r = (if braces then [125] else []) then Some (foldl (\<lambda>v b. 256 * v + b) 0 bs)
          else None)"

definition invalid_uuid :: exn where
  "invalid_uuid = DbError ''22P02'' ''invalid input syntax for type uuid''"

text \<open>
  A text the database can store: valid code points only, no U+0000 and no surrogate.  A JSON
  string with \<open>\u0000\<close> or an unpaired surrogate fails when it is converted for a column,
  a filter value with U+0000 when it is sent; either way the statement fails.
\<close>

definition storable :: "ustring \<Rightarrow> bool" where
  "storable s = list_all (\<lambda>c. 0 < c \<and> c < 0x110000 \<and> \<not> (0xD800 \<le> c \<and> c \<le> 0xDFFF)) s"

definition opt_storable :: "ustring option \<Rightarrow> bool" where
  "opt_storable x = (case x of None \<Rightarrow> True | Some s \<Rightarrow> storable s)"

definition invalid_text :: exn where
  "invalid_text = DbError ''22P05'' ''unsupported Unicode escape sequence''"

text \<open>
  A JSON array sent for the column \<open>tags TEXT[]\<close>.  An array of storable strings is stored as
  it is.  The model does not follow the conversion of other elements (the database turns
  numbers and booleans into their text and nested arrays into dimensions, refusing ragged
  ones): an array with an element that is not a storable string is answered as refused.
\<close>

fun text_array_in :: "json list \<Rightarrow> ustring list option" where
  "text_array_in [] = Some []"
| "text_array_in (JStr s # xs) = (if storable s then map_option ((#) s) (text_array_in xs) else None)"
| "text_array_in (v # xs) = None"

text \<open>Table \<open>contacts\<close> (column \<open>id\<close> is named \<open>cid\<close> here).\<close>

record contact =
  cid :: uuid
  owner_id :: uuid
  phone_number :: ustring
  custom_name :: ustring
  whatsapp_name :: "ustring option"
  email :: "ustring option"
  company :: "ustring option"
  position :: "ustring option"
  address :: "ustring option"
  "notes" :: "ustring option"
  tags :: "ustring list option"
  last_active :: "timestamp option"
  created_at :: timestamp
  updated_at :: timestamp

text \<open>Table \<open>chat_groups\<close>, declared outside this module; the handlers read \<open>id\<close> and
  \<open>owner_id\<close> only.\<close>

record chat_group =
  gid :: uuid
  g_owner_id :: uuid

text \<open>Table \<open>contact_groups\<close>: the columns the code reads and writes (\<open>id\<close>, \<open>added_at\<close> and
  \<open>added_by\<close> take their defaults).\<close>

record contact_group =
  contact_id :: uuid
  group_id :: uuid

text \<open>Table \<open>group_members\<close>, the target of the add and remove handlers.  Its declaration is
  not among the migrations: \<open>group_id\<close> is taken as a reference to \<open>chat_groups\<close>, and
  \<open>user_id\<close> holds the value the handler sends.\<close>

record group_member =
  gm_group_id :: uuid
  gm_user_id :: json

record db =
  contacts :: "contact list"
  chat_groups :: "chat_group list"
  contact_groups :: "contact_group list"
  group_members :: "group_member list"

text \<open>The clocks: \<open>new Date()\<close> of the handler and \<open>NOW()\<close> of the database.\<close>

record env =
  js_now :: timestamp
  db_now :: timestamp

text \<open>\<open>supabase.auth.getUser()\<close> yields \<open>{ data: { user }, error: authError }\<close>.\<close>

record session =
  user :: "uuid option"
  authError :: bool

text \<open>The guard \<open>if (authError || !user)\<close>: \<open>None\<close> is the Unauthorized branch.\<close>

definition authenticated :: "session \<Rightarrow> uuid option" where
  "authenticated s = (if authError s then None else user s)"

text \<open>Row-level security of \<open>contacts\<close>: every policy is \<open>auth.uid() = owner_id\<close>.\<close>

definition rls_contact :: "uuid \<Rightarrow> contact \<Rightarrow> bool" where
  "rls_contact uid c = (uid = owner_id c)"

text \<open>\<open>ORDER BY custom_name ASC NULLS LAST\<close>; the column is \<open>NOT NULL\<close>.  The collation is
  modelled as the lexicographic order on code points, and rows with equal names keep their
  table order.\<close>

definition order_by_custom_name :: "contact list \<Rightarrow> contact list" where
  "order_by_custom_name cs = sort_key custom_name cs"

text \<open>\<open>.single()\<close>: exactly one row, else error \<open>PGRST116\<close>.\<close>

definition single :: "'a list \<Rightarrow> exn + 'a" where
  "single rows = (case rows of [r] \<Rightarrow> Inr r
                  | _ \<Rightarrow> Inl (DbError ''PGRST116'' ''JSON object requested, multiple (or no) rows returned''))"

text \<open>The values a handler sends to \<open>insert\<close> and \<open>update\<close>.\<close>

record contact_update =
  u_custom_name :: ustring
  u_whatsapp_name :: "ustring option"
  u_email :: "ustring option"
  u_company :: "ustring option"
  u_position :: "ustring option"
  u_address :: "ustring option"
  u_notes :: "ustring option"
  u_tags :: "json list option"

record contact_insert = contact_update +
  i_phone_number :: ustring
  i_last_active :: timestamp

text \<open>The database converts the values sent for the columns; \<open>None\<close> is a value it refuses,
  \<open>Some t\<close> gives the \<open>tags\<close> column.\<close>

definition values_in :: "('a contact_update_scheme) \<Rightarrow> ustring list option option" where
  "values_in v =
     (if storable (u_custom_name v) \<and> opt_storable (u_whatsapp_name v) \<and> opt_storable (u_email v)
         \<and> opt_storable (u_company v) \<and> opt_storable (u_position v) \<and> opt_storable (u_address v)
         \<and> opt_storable (u_notes v)
      then (case u_tags v of None \<Rightarrow> Some None | Some xs \<Rightarrow> map_option Some (text_array_in xs))
      else None)"

text \<open>The identifier \<open>gen_random_uuid()\<close> gives a new row.\<close>

definition fresh_id :: "db \<Rightarrow> uuid" where
  "fresh_id d = Suc (fold max (map cid (contacts d)) 0)"

text \<open>
  \<open>INSERT INTO contacts\<close> by caller \<open>uid\<close>: the values are converted first; \<open>owner_id\<close>
  defaults to \<open>auth.uid()\<close> (column default and trigger \<open>contacts_set_owner_id\<close>), the
  timestamps to \<open>NOW()\<close>; the insert policy holds for that owner;
  \<open>UNIQUE(owner_id, phone_number)\<close> is checked against every row of the table and fails the
  statement with code 23505.
\<close>

definition new_contact ::
    "env \<Rightarrow> uuid \<Rightarrow> db \<Rightarrow> ('a contact_insert_scheme) \<Rightarrow> ustring list option \<Rightarrow> contact" where
  "new_contact e uid d v tg =
     \<lparr> cid = fresh_id d, owner_id = uid,
       phone_number = i_phone_number v, custom_name = u_custom_name v,
       whatsapp_name = u_whatsapp_name v, email = u_email v, company = u_company v,
       position = u_position v, address = u_address v, notes = u_notes v, tags = tg,
       last_active = Some (i_last_active v),
       created_at = db_now e, updated_at = db_now e \<rparr>"

definition insert_contact :: "env \<Rightarrow> uuid \<Rightarrow> ('a contact_insert_scheme) \<Rightarrow> db \<Rightarrow> exn + contact \<times> db" where
  "insert_contact e uid v d =
     (case (if storable (i_phone_number v) then values_in v else None) of
        None \<Rightarrow> Inl invalid_text
      | Some tg \<Rightarrow>
          (let row = new_contact e uid d v tg in
           if list_ex (\<lambda>c. owner_id c = owner_id row \<and> phone_number c = phone_number row) (contacts d)
           then Inl (DbError ''23505'' ''duplicate key value violates unique constraint'')
           else Inr (row, d\<lparr>contacts := contacts d @ [row]\<rparr>)))"

text \<open>\<open>SELECT * FROM contacts WHERE id = .. AND owner_id = ..\<close> with \<open>.single()\<close>, under the
  select policy.\<close>

definition select_contact :: "uuid \<Rightarrow> ustring \<Rightarrow> uuid \<Rightarrow> db \<Rightarrow> exn + contact" where
  "select_contact uid eq_id eq_owner d =
     (case uuid_in eq_id of
        None \<Rightarrow> Inl invalid_uuid
      | Some i \<Rightarrow> single (filter (\<lambda>c. rls_contact uid c \<and> cid c = i \<and> owner_id c = eq_owner) (contacts d)))"

text \<open>
  \<open>UPDATE contacts SET ... WHERE id = .. AND owner_id = ..\<close> followed by \<open>.select().single()\<close>:
  the rows the update policy shows the caller and the filters select are rewritten, trigger
  \<open>contacts_updated_at\<close> sets \<open>updated_at\<close> to \<open>NOW()\<close>; unless exactly one row comes back the
  request fails with \<open>PGRST116\<close> and nothing is written.
\<close>

definition apply_update ::
    "env \<Rightarrow> ('a contact_update_scheme) \<Rightarrow> ustring list option \<Rightarrow> contact \<Rightarrow> contact" where
  "apply_update e v tg c =
     c\<lparr> custom_name := u_custom_name v, whatsapp_name := u_whatsapp_name v, email := u_email v,
        company := u_company v, position := u_position v, address := u_address v,
        notes := u_notes v, tags := tg, updated_at := db_now e \<rparr>"

definition update_contact ::
    "env \<Rightarrow> uuid \<Rightarrow> ustring \<Rightarrow> uuid \<Rightarrow> ('a contact_update_scheme) \<Rightarrow> db \<Rightarrow> exn + contact \<times> db" where
  "update_contact e uid eq_id eq_owner v d =
     (case uuid_in eq_id of
        None \<Rightarrow> Inl invalid_uuid
      | Some i \<Rightarrow>
          (case values_in v of
             None \<Rightarrow> Inl invalid_text
           | Some tg \<Rightarrow>
               (let hit = (\<lambda>c. rls_contact uid c \<and> cid c = i \<and> owner_id c = eq_owner) in
                case single (map (apply_update e v tg) (filter hit (contacts d))) of
                  Inl err \<Rightarrow> Inl err
                | Inr row \<Rightarrow>
                    Inr (row, d\<lparr>contacts := map (\<lambda>c. if hit c then apply_update e v tg c else c)
                                                (contacts d)\<rparr>))))"

text \<open>
  \<open>DELETE FROM contacts WHERE id = .. AND owner_id = ..\<close>: the rows the delete policy shows and
  the filters select go, and with them (\<open>ON DELETE CASCADE\<close>) the rows of \<open>contact_groups\<close>
  that reference them.  Deleting no row is not an error; an id that is not a UUID is.
\<close>

definition delete_contact :: "uuid \<Rightarrow> ustring \<Rightarrow> uuid \<Rightarrow> db \<Rightarrow> exn + db" where
  "delete_contact uid eq_id eq_owner d =
     (case uuid_in eq_id of
        None \<Rightarrow> Inl invalid_uuid
      | Some i \<Rightarrow>
          (let hit = (\<lambda>c. rls_contact uid c \<and> cid c = i \<and> owner_id c = eq_owner);
               gone = map cid (filter hit (contacts d)) in
           Inr (d\<lparr> contacts := filter (\<lambda>c. \<not> hit c) (contacts d),
                   contact_groups := filter (\<lambda>m. contact_id m \<notin> set gone) (contact_groups d) \<rparr>)))"

section \<open>Responses\<close>

text \<open>The JSON bodies the handlers build (\<open>success: true\<close> is implied by every body but the
  error body); \<open>NextResponse.json(x)\<close> has status 200 unless one is given.\<close>

record member =
  m_member_id :: uuid
  m_user_id :: ustring
  m_custom_name :: ustring
  m_whatsapp_name :: ustring
  m_unread_count :: nat

datatype payload =
    ErrorBody string "string option"
  | ContactsBody "contact list" nat
  | ContactBody contact "string option"
  | MessageBody string
  | SearchBody "contact list" nat ustring "ustring option"
  | MembersBody "member list"
  | AddedBody nat

datatype response = Response (status: nat) (payload: payload)

definition unauthorized :: response where
  "unauthorized = Response 401 (ErrorBody ''Unauthorized'' None)"

definition failed :: "string \<Rightarrow> response" where
  "failed msg = Response 500 (ErrorBody msg None)"

text \<open>\<open>error.message\<close> of a thrown value, where the handler puts it in \<open>details\<close>.\<close>

fun message_of :: "exn \<Rightarrow> string option" where
  "message_of (DbError code msg) = Some msg"
| "message_of TypeError = None"

section \<open>Contacts API: \<open>/api/contacts/[id]\<close>\<close>

text \<open>\<open>GET\<close>: one contact of the caller; \<open>PGRST116\<close> is answered with 404, any other error is
  rethrown into the handler's \<open>catch\<close>.\<close>

definition GET_contact :: "session \<Rightarrow> ustring \<Rightarrow> db \<Rightarrow> response" where
  "GET_contact s contactId d =
     (case authenticated s of
        None \<Rightarrow> unauthorized
      | Some uid \<Rightarrow>
          (case select_contact uid contactId uid d of
             Inl err \<Rightarrow>
               (case err of
                  DbError code msg \<Rightarrow>
                    if code = ''PGRST116'' then Response 404 (ErrorBody ''Contact not found'' None)
                    else failed ''Failed to fetch contact''
                | TypeError \<Rightarrow> failed ''Failed to fetch contact'')
           | Inr c \<Rightarrow> Response 200 (ContactBody c None)))"

text \<open>The object literal passed to \<open>.update\<close>, evaluated field by field in source order; the
  first \<open>trim\<close> that throws ends it.\<close>

definition update_values :: "(string \<Rightarrow> json) \<Rightarrow> exn + contact_update" where
  "update_values f =
     bind_exn (call_trim (f ''customName'')) (\<lambda>cn.
     bind_exn (opt_trim (f ''whatsappName'')) (\<lambda>wn.
     bind_exn (opt_trim (f ''email'')) (\<lambda>em.
     bind_exn (opt_trim (f ''company'')) (\<lambda>co.
     bind_exn (opt_trim (f ''position'')) (\<lambda>po.
     bind_exn (opt_trim (f ''address'')) (\<lambda>ad.
     bind_exn (opt_trim (f ''notes'')) (\<lambda>no.
       Inr \<lparr> u_custom_name = cn, u_whatsapp_name = wn, u_email = em, u_company = co,
             u_position = po, u_address = ad, u_notes = no,
             u_tags = tags_or_null (f ''tags'') \<rparr>)))))))"

text \<open>\<open>PUT\<close>.  The request body is \<open>None\<close> when it is not JSON (\<open>request.json()\<close> throws).
  Every throw inside the \<open>try\<close>, the update's error included, ends in the \<open>catch\<close>: 500.\<close>

definition PUT_contact :: "env \<Rightarrow> session \<Rightarrow> ustring \<Rightarrow> json option \<Rightarrow> db \<Rightarrow> response \<times> db" where
  "PUT_contact e s contactId req d =
     (case authenticated s of
        None \<Rightarrow> (unauthorized, d)
      | Some uid \<Rightarrow>
          (case req of
             None \<Rightarrow> (failed ''Failed to update contact'', d)
           | Some body \<Rightarrow>
               (case destructure body of
                  None \<Rightarrow> (failed ''Failed to update contact'', d)
                | Some f \<Rightarrow>
                    if \<not> truthy (f ''customName'')
                    then (Response 400 (ErrorBody ''Name is required'' None), d)
                    else
                      (case bind_exn (update_values f) (\<lambda>v. update_contact e uid contactId uid v d) of
                         Inl err \<Rightarrow> (failed ''Failed to update contact'', d)
                       | Inr (c, d') \<Rightarrow>
                           (Response 200 (ContactBody c (Some ''Contact updated successfully'')), d')))))"

text \<open>\<open>DELETE\<close>: the delete's error, if any, is rethrown into the \<open>catch\<close>; there is no check
  of how many rows went.\<close>

definition DELETE_contact :: "session \<Rightarrow> ustring \<Rightarrow> db \<Rightarrow> response \<times> db" where
  "DELETE_contact s contactId d =
     (case authenticated s of
        None \<Rightarrow> (unauthorized, d)
      | Some uid \<Rightarrow>
          (case delete_contact uid contactId uid d of
             Inl deleteError \<Rightarrow> (failed ''Failed to delete contact'', d)
           | Inr d' \<Rightarrow> (Response 200 (MessageBody ''Contact deleted successfully''), d')))"

section \<open>Contacts API: \<open>/api/contacts\<close>\<close>

text \<open>\<open>GET\<close>: all contacts of the caller, ordered by custom name.\<close>

definition GET_contacts :: "session \<Rightarrow> db \<Rightarrow> response" where
  "GET_contacts s d =
     (case authenticated s of
        None \<Rightarrow> unauthorized
      | Some uid \<Rightarrow>
          (let rows = order_by_custom_name
                        (filter (\<lambda>c. rls_contact uid c \<and> owner_id c = uid) (contacts d))
           in Response 200 (ContactsBody rows (length rows))))"

text \<open>The object literal passed to \<open>.insert\<close>, evaluated field by field in source order.\<close>

definition insert_values :: "env \<Rightarrow> (string \<Rightarrow> json) \<Rightarrow> exn + contact_insert" where
  "insert_values e f =
     bind_exn (call_trim (f ''phoneNumber'')) (\<lambda>pn.
     bind_exn (call_trim (f ''customName'')) (\<lambda>cn.
     bind_exn (opt_trim (f ''whatsappName'')) (\<lambda>wn.
     bind_exn (opt_trim (f ''email'')) (\<lambda>em.
     bind_exn (opt_trim (f ''company'')) (\<lambda>co.
     bind_exn (opt_trim (f ''position'')) (\<lambda>po.
     bind_exn (opt_trim (f ''address'')) (\<lambda>ad.
     bind_exn (opt_trim (f ''notes'')) (\<lambda>no.
       Inr \<lparr> u_custom_name = cn, u_whatsapp_name = wn, u_email = em, u_company = co,
             u_position = po, u_address = ad, u_notes = no,
             u_tags = tags_or_null (f ''tags''),
             i_phone_number = pn, i_last_active = js_now e \<rparr>))))))))"

text \<open>\<open>POST\<close>: create a contact.  Error code 23505 of the insert is answered with 409, any
  other error is rethrown into the \<open>catch\<close>.\<close>

definition POST_contacts :: "env \<Rightarrow> session \<Rightarrow> json option \<Rightarrow> db \<Rightarrow> response \<times> db" where
  "POST_contacts e s req d =
     (case authenticated s of
        None \<Rightarrow> (unauthorized, d)
      | Some uid \<Rightarrow>
          (case req of
             None \<Rightarrow> (failed ''Failed to create contact'', d)
           | Some body \<Rightarrow>
               (case destructure body of
                  None \<Rightarrow> (failed ''Failed to create contact'', d)
                | Some f \<Rightarrow>
                    if \<not> truthy (f ''phoneNumber'') \<or> \<not> truthy (f ''customName'')
                    then (Response 400 (ErrorBody ''Phone number and name are required'' None), d)
                    else
                      (case insert_values e f of
                         Inl err \<Rightarrow> (failed ''Failed to create contact'', d)
                       | Inr v \<Rightarrow>
                           (case insert_contact e uid v d of
                              Inl err \<Rightarrow>
                                (case err of
                                   DbError code msg \<Rightarrow>
                                     if code = ''23505''
                                     then (Response 409
                                             (ErrorBody ''Contact with this phone number already exists'' None), d)
                                     else (failed ''Failed to create contact'', d)
                                 | TypeError \<Rightarrow> (failed ''Failed to create contact'', d))
                            | Inr (c, d') \<Rightarrow>
                                (Response 200 (ContactBody c (Some ''Contact created successfully'')), d'))))))"

section \<open>Group-membership API: \<open>/api/groups/[id]/members\<close>\<close>

text \<open>The ownership check every handler makes: \<open>chat_groups\<close> filtered by id and owner,
  \<open>.single()\<close>; only \<open>data\<close> is read, so an error (an id that is not a UUID, or not exactly
  one row) gives \<open>!group\<close>.\<close>

definition owned_group :: "uuid \<Rightarrow> ustring \<Rightarrow> db \<Rightarrow> chat_group option" where
  "owned_group uid groupId d =
     (case uuid_in groupId of
        None \<Rightarrow> None
      | Some g \<Rightarrow>
          (case single (filter (\<lambda>grp. gid grp = g \<and> g_owner_id grp = uid) (chat_groups d)) of
             Inl err \<Rightarrow> None
           | Inr grp \<Rightarrow> Some grp))"

definition group_not_found :: response where
  "group_not_found = Response 404 (ErrorBody ''Group not found or unauthorized'' None)"

text \<open>The interfaces \<open>ContactMemberData\<close> and \<open>ContactGroupMemberData\<close> of the handler.\<close>

record ContactMemberData =
  cm_phone_number :: ustring
  cm_custom_name :: ustring
  cm_whatsapp_name :: "ustring option"

record ContactGroupMemberData =
  cgm_contact_id :: uuid
  cgm_contacts :: "ContactMemberData option"

text \<open>
  The select on \<open>contact_groups\<close> with the embedded \<open>contacts (...)\<close>: the select policy shows
  a membership row when the caller owns its contact; the embedded contact is the row of
  \<open>contacts\<close> the caller may see with that id, or \<open>null\<close>.
\<close>

definition embed_contact :: "uuid \<Rightarrow> uuid \<Rightarrow> db \<Rightarrow> ContactMemberData option" where
  "embed_contact uid c_id d =
     (case filter (\<lambda>c. rls_contact uid c \<and> cid c = c_id) (contacts d) of
        [] \<Rightarrow> None
      | c # cs \<Rightarrow> Some \<lparr> cm_phone_number = phone_number c, cm_custom_name = custom_name c,
                          cm_whatsapp_name = whatsapp_name c \<rparr>)"

definition select_contact_groups :: "uuid \<Rightarrow> uuid \<Rightarrow> db \<Rightarrow> ContactGroupMemberData list" where
  "select_contact_groups uid g d =
     map (\<lambda>m. \<lparr> cgm_contact_id = contact_id m, cgm_contacts = embed_contact uid (contact_id m) d \<rparr>)
       (filter (\<lambda>m. list_ex (\<lambda>c. cid c = contact_id m \<and> owner_id c = uid) (contacts d)
                     \<and> group_id m = g)
          (contact_groups d))"

text \<open>\<open>x || ''\<close> on a string that may be missing.\<close>

definition or_empty :: "ustring option \<Rightarrow> ustring" where
  "or_empty x = (case x of None \<Rightarrow> [] | Some s \<Rightarrow> s)"

text \<open>The arrow function mapped over the rows: \<open>cg.contacts?.phone_number || ''\<close> and so on.\<close>

definition format_member :: "ContactGroupMemberData \<Rightarrow> member" where
  "format_member cg =
     \<lparr> m_member_id = cgm_contact_id cg,
       m_user_id = or_empty (map_option cm_phone_number (cgm_contacts cg)),
       m_custom_name = or_empty (map_option cm_custom_name (cgm_contacts cg)),
       m_whatsapp_name = or_empty (Option.bind (cgm_contacts cg) cm_whatsapp_name),
       m_unread_count = 0 \<rparr>"

text \<open>\<open>GET\<close>: the members of a group of the caller.\<close>

definition GET_members :: "session \<Rightarrow> ustring \<Rightarrow> db \<Rightarrow> response" where
  "GET_members s groupId d =
     (case authenticated s of
        None \<Rightarrow> unauthorized
      | Some uid \<Rightarrow>
          (case owned_group uid groupId d of
             None \<Rightarrow> group_not_found
           | Some grp \<Rightarrow>
               Response 200 (MembersBody (map format_member (select_contact_groups uid (gid grp) d)))))"

text \<open>
  \<open>INSERT INTO group_members\<close> of several rows, as \<open>.insert(members)\<close> sends it: one statement
  with no conflict clause.  A string the database cannot store fails it.  Whether the table
  has the uniqueness constraint on \<open>(group_id, user_id)\<close> that the handler's comment relies
  on is the parameter \<open>uq\<close>: with the constraint, a row that repeats a stored row or an
  earlier row of the same statement fails the whole statement with code 23505.
\<close>

fun sendable :: "json \<Rightarrow> bool" where
  "sendable (JStr s) = storable s"
| "sendable v = True"

definition insert_group_members :: "bool \<Rightarrow> group_member list \<Rightarrow> db \<Rightarrow> exn + group_member list \<times> db" where
  "insert_group_members uq rows d =
     (if \<not> list_all (\<lambda>r. sendable (gm_user_id r)) rows then Inl invalid_text
      else if uq \<and> (list_ex (\<lambda>r. r \<in> set (group_members d)) rows \<or> \<not> distinct rows)
      then Inl (DbError ''23505'' ''duplicate key value violates unique constraint'')
      else Inr (rows, d\<lparr>group_members := group_members d @ rows\<rparr>))"

text \<open>\<open>POST\<close>: add members.  \<open>!userIds || !Array.isArray(userIds) || userIds.length === 0\<close>
  is the validation; the insert's error is answered with 500 and its message.\<close>

definition POST_members :: "bool \<Rightarrow> session \<Rightarrow> ustring \<Rightarrow> json option \<Rightarrow> db \<Rightarrow> response \<times> db" where
  "POST_members uq s groupId req d =
     (case authenticated s of
        None \<Rightarrow> (unauthorized, d)
      | Some uid \<Rightarrow>
          (case req of
             None \<Rightarrow> (failed ''Internal server error'', d)
           | Some body \<Rightarrow>
               (case destructure body of
                  None \<Rightarrow> (failed ''Internal server error'', d)
                | Some f \<Rightarrow>
                    (case f ''userIds'' of
                       JArr (x # xs) \<Rightarrow>
                         (case owned_group uid groupId d of
                            None \<Rightarrow> (group_not_found, d)
                          | Some grp \<Rightarrow>
                              (case insert_group_members uq
                                      (map (\<lambda>userId. \<lparr> gm_group_id = gid grp, gm_user_id = userId \<rparr>) (x # xs)) d of
                                 Inl err \<Rightarrow>
                                   (Response 500 (ErrorBody ''Failed to add members'' (message_of err)), d)
                               | Inr (rows, d') \<Rightarrow> (Response 200 (AddedBody (length rows)), d')))
                     | v \<Rightarrow> (Response 400 (ErrorBody ''User IDs array is required'' None), d)))))"

text \<open>\<open>DELETE\<close>: remove one member; \<open>userId\<close> is the query parameter (\<open>None\<close> when absent).
  The delete's error is answered with 500 and its message.\<close>

definition DELETE_member :: "session \<Rightarrow> ustring \<Rightarrow> ustring option \<Rightarrow> db \<Rightarrow> response \<times> db" where
  "DELETE_member s groupId userId d =
     (case authenticated s of
        None \<Rightarrow> (unauthorized, d)
      | Some uid \<Rightarrow>
          (case userId of
             None \<Rightarrow> (Response 400 (ErrorBody ''User ID is required'' None), d)
           | Some u \<Rightarrow>
               if u = [] then (Response 400 (ErrorBody ''User ID is required'' None), d)
               else
                 (case owned_group uid groupId d of
                    None \<Rightarrow> (group_not_found, d)
                  | Some grp \<Rightarrow>
                      if \<not> storable u
                      then (Response 500 (ErrorBody ''Failed to remove member'' (message_of invalid_text)), d)
                      else
                        (Response 200 (MessageBody ''Member removed successfully''),
                         d\<lparr>group_members :=
                              filter (\<lambda>m. \<not> (gm_group_id m = gid grp \<and> gm_user_id m = JStr u))
                                (group_members d)\<rparr>))))"

section \<open>Contacts API: \<open>/api/contacts/search\<close>\<close>

text \<open>
  The handler builds its filter as text, \<open>custom_name.ilike.%${query}%,...\<close>, from the raw
  query parameter.  \<open>ILIKE\<close> is SQL pattern matching without regard to case: in the pattern
  \<open>%\<close> (37) stands for any run of characters, \<open>_\<close> (95) for any one character, and a
  backslash (92) takes the next character literally.
\<close>

fun like_match :: "ustring \<Rightarrow> ustring \<Rightarrow> bool" where
  "like_match [] s = (s = [])"
| "like_match (p # ps) s =
     (if p = 37 then
        (like_match ps s \<or> (case s of [] \<Rightarrow> False | x # t \<Rightarrow> like_match (p # ps) t))
      else if p = 95 then
        (case s of [] \<Rightarrow> False | x # t \<Rightarrow> like_match ps t)
      else if p = 92 then
        (case ps of
           [] \<Rightarrow> False
         | c # ps' \<Rightarrow> (case s of [] \<Rightarrow> False | x # t \<Rightarrow> x = c \<and> like_match ps' t))
      else
        (case s of [] \<Rightarrow> False | x # t \<Rightarrow> x = p \<and> like_match ps t))"

text \<open>A \<open>NULL\<close> column matches no pattern.\<close>

definition ilike :: "ustring option \<Rightarrow> ustring \<Rightarrow> bool" where
  "ilike col pat =
     (case col of None \<Rightarrow> False | Some s \<Rightarrow> like_match (toLowerCase pat) (toLowerCase s))"

text \<open>The pattern \<open>%${query}%\<close> as the query service reads it: in a pattern of \<open>like\<close> and
  \<open>ilike\<close> it takes \<open>*\<close> (42) for \<open>%\<close>.\<close>

definition ilike_pattern :: "ustring \<Rightarrow> ustring" where
  "ilike_pattern query = map (\<lambda>c. if c = 42 then 37 else c) ([37] @ query @ [37])"

text \<open>
  The argument of \<open>.or(...)\<close> is a comma-separated list inside parentheses, which the query
  service splits again: a comma (44) or a closing parenthesis (41) in the query ends the
  first pattern early, and what follows is read as further filters.  The model reads the
  five conditions the handler spells out when the query has neither character.  It does not
  follow the service's grammar further: a query with either character is answered as a
  failed request, which is what the service does unless the remainder happens to parse.  A
  query the database cannot take as text fails the request.
\<close>

definition or_filter :: "ustring \<Rightarrow> (contact \<Rightarrow> bool) option" where
  "or_filter query =
     (if 44 \<in> set query \<or> 41 \<in> set query \<or> \<not> storable query then None
      else Some (\<lambda>c. ilike (Some (custom_name c)) (ilike_pattern query)
                     \<or> ilike (whatsapp_name c) (ilike_pattern query)
                     \<or> ilike (Some (phone_number c)) (ilike_pattern query)
                     \<or> ilike (email c) (ilike_pattern query)
                     \<or> ilike (company c) (ilike_pattern query)))"

text \<open>
  \<open>.contains("tags", [tag])\<close> is sent as \<open>tags=cs.{tag}\<close>, an array literal the database
  reads: blanks (space, TAB, LF, CR, VT, FF) around an unquoted element are dropped, an
  unquoted \<open>NULL\<close> is the null element (which no array contains), and comma (44), braces
  (123, 125), double quote (34) and backslash (92) are syntax.  The model reads a
  one-element literal.  It does not follow the literal's grammar further: a tag that holds
  a syntax character, or nothing but blanks, is answered as a failed request.  A \<open>NULL\<close>
  tags column contains nothing.
\<close>

definition array_blank :: "nat \<Rightarrow> bool" where
  "array_blank c = (c \<in> set [0x20, 0x09, 0x0A, 0x0D, 0x0B, 0x0C])"

definition array_element :: "ustring \<Rightarrow> ustring" where
  "array_element s = rev (dropWhile array_blank (rev (dropWhile array_blank s)))"

definition contains_filter :: "ustring \<Rightarrow> (contact \<Rightarrow> bool) option" where
  "contains_filter tag =
     (if list_ex (\<lambda>c. c \<in> set [44, 123, 125, 34, 92]) tag \<or> array_element tag = []
         \<or> \<not> storable tag
      then None
      else if toLowerCase (array_element tag) = lit ''null'' then Some (\<lambda>c. False)
      else Some (\<lambda>c. case tags c of None \<Rightarrow> False | Some ts \<Rightarrow> array_element tag \<in> set ts))"

text \<open>\<open>GET\<close>: \<open>q\<close> and \<open>tag\<close> are \<open>searchParams.get(..)\<close>, \<open>None\<close> when the parameter is
  absent; \<open>query = q || ""\<close>; each filter is applied only when its text is non-empty.\<close>

definition GET_search :: "session \<Rightarrow> ustring option \<Rightarrow> ustring option \<Rightarrow> db \<Rightarrow> response" where
  "GET_search s q tag d =
     (case authenticated s of
        None \<Rightarrow> unauthorized
      | Some uid \<Rightarrow>
          (let query = (case q of None \<Rightarrow> [] | Some x \<Rightarrow> x);
               by_query = (if query \<noteq> [] then or_filter query else Some (\<lambda>c. True));
               by_tag = (case tag of
                           None \<Rightarrow> Some (\<lambda>c. True)
                         | Some t \<Rightarrow> if t \<noteq> [] then contains_filter t else Some (\<lambda>c. True))
           in case by_query of
                None \<Rightarrow> failed ''Failed to search contacts''
              | Some mq \<Rightarrow>
                  (case by_tag of
                     None \<Rightarrow> failed ''Failed to search contacts''
                   | Some mt \<Rightarrow>
                       (let rows = order_by_custom_name
                                     (filter (\<lambda>c. rls_contact uid c \<and> owner_id c = uid \<and> mq c \<and> mt c)
                                        (contacts d))
                        in Response 200 (SearchBody rows (length rows) query tag)))))"

section \<open>Contacts page: the search box\<close>

text \<open>\<open>x?.toLowerCase().includes(term)\<close> on a field that may be missing.\<close>

definition opt_includes :: "ustring option \<Rightarrow> ustring \<Rightarrow> bool" where
  "opt_includes x term = (case x of None \<Rightarrow> False | Some s \<Rightarrow> js_includes (toLowerCase s) term)"

text \<open>The effect on \<open>searchTerm\<close> of \<open>ContactsPage\<close>: a blank term shows every loaded contact,
  otherwise those with the lower-cased term in one of the five fields.\<close>

definition page_filter :: "ustring \<Rightarrow> contact list \<Rightarrow> contact list" where
  "page_filter searchTerm cs =
     (if trim searchTerm = [] then cs
      else
        (let term = toLowerCase searchTerm in
         filter (\<lambda>c. opt_includes (Some (custom_name c)) term \<or> opt_includes (whatsapp_name c) term
                      \<or> js_includes (toLowerCase (phone_number c)) term
                      \<or> opt_includes (email c) term \<or> opt_includes (company c) term) cs))"

section \<open>Group management dialog: \<open>handleSave\<close>\<close>

text \<open>The \<open>Group\<close> prop of the dialog.\<close>

record Group =
  grp_group_id :: uuid
  grp_group_name :: ustring
  grp_group_description :: "ustring option"
  grp_member_count :: nat

text \<open>The state and props \<open>handleSave\<close> reads.\<close>

record dialog =
  name :: ustring
  description :: ustring
  selectedUserIds :: "uuid list"
  group_prop :: "Group option"









section \<open>Reference predicates\<close>

text \<open>The specification's words, written out for comparison with what the handlers compute.\<close>






text \<open>``Matches case-insensitively against custom name, whatsapp-provided name, phone number,
  email, or company using substring containment.''\<close>

definition ci_has_substring :: "ustring option \<Rightarrow> ustring \<Rightarrow> bool" where
  "ci_has_substring col q =
     (case col of None \<Rightarrow> False | Some s \<Rightarrow> js_includes (toLowerCase s) (toLowerCase q))"

definition spec_matches_query :: "ustring \<Rightarrow> contact \<Rightarrow> bool" where
  "spec_matches_query q c =
     (ci_has_substring (Some (custom_name c)) q \<or> ci_has_substring (whatsapp_name c) q
      \<or> ci_has_substring (Some (phone_number c)) q \<or> ci_has_substring (email c) q
      \<or> ci_has_substring (company c) q)"

text \<open>``Matches contacts whose tag set contains it.''\<close>

definition spec_has_tag :: "ustring \<Rightarrow> contact \<Rightarrow> bool" where
  "spec_has_tag t c = (case tags c of None \<Rightarrow> False | Some ts \<Rightarrow> t \<in> set ts)"

text \<open>The contacts a search is to return: owned by the caller, and matching each filter
  whose text is present and non-empty.\<close>

definition spec_search :: "uuid \<Rightarrow> ustring option \<Rightarrow> ustring option \<Rightarrow> contact \<Rightarrow> bool" where
  "spec_search uid q tag c =
     (owner_id c = uid
      \<and> (case q of None \<Rightarrow> True | Some x \<Rightarrow> x = [] \<or> spec_matches_query x c)
      \<and> (case tag of None \<Rightarrow> True | Some t \<Rightarrow> t = [] \<or> spec_has_tag t c))"

text \<open>A pattern character that stands for itself.\<close>

definition literal :: "nat \<Rightarrow> bool" where
  "literal c = (c \<noteq> 37 \<and> c \<noteq> 95 \<and> c \<noteq> 92)"

text \<open>A query with no pattern character (\<open>%\<close>, \<open>_\<close>, backslash, \<open>*\<close>) and no filter
  separator (comma, closing parenthesis), that the database can take as text.\<close>

definition plain_query :: "ustring \<Rightarrow> bool" where
  "plain_query q = (list_all (\<lambda>c. c \<notin> set [37, 95, 92, 42, 44, 41]) q \<and> storable q)"

text \<open>A tag with no array-literal syntax, no blanks at its ends, and not the word \<open>NULL\<close>.\<close>

definition plain_tag :: "ustring \<Rightarrow> bool" where
  "plain_tag t =
     (list_all (\<lambda>c. c \<notin> set [44, 123, 125, 34, 92]) t
      \<and> array_element t = t \<and> toLowerCase t \<noteq> lit ''null'' \<and> storable t)"

section \<open>Example data\<close>

definition ex_caller :: session where
  "ex_caller = \<lparr> user = Some 1, authError = False \<rparr>"

definition ex_other :: session where
  "ex_other = \<lparr> user = Some 2, authError = False \<rparr>"

definition ex_anonymous :: session where
  "ex_anonymous = \<lparr> user = None, authError = False \<rparr>"

definition ex_clock :: env where
  "ex_clock = \<lparr> js_now = 5, db_now = 6 \<rparr>"

text \<open>Path parameters: the identifiers 1, 7 and 9 as UUID text, and a text that is no UUID.\<close>

definition ex_id_1 :: ustring where
  "ex_id_1 = lit ''00000000-0000-0000-0000-000000000001''"

definition ex_id_7 :: ustring where
  "ex_id_7 = lit ''00000000-0000-0000-0000-000000000007''"

definition ex_id_9 :: ustring where
  "ex_id_9 = lit ''00000000-0000-0000-0000-000000000009''"

definition ex_id_abc :: ustring where
  "ex_id_abc = lit ''abc''"

definition ex_empty :: db where
  "ex_empty = \<lparr> contacts = [], chat_groups = [], contact_groups = [], group_members = [] \<rparr>"

definition ex_bob :: contact where
  "ex_bob = \<lparr> cid = 1, owner_id = 1, phone_number = lit ''15551234567'', custom_name = lit ''Bob'',
              whatsapp_name = None, email = None, company = None, position = None,
              address = None, notes = None, tags = Some [lit ''vip''],
              last_active = None, created_at = 1, updated_at = 1 \<rparr>"

text \<open>One contact of caller 1, in the caller's group 9.\<close>

definition ex_one :: db where
  "ex_one = \<lparr> contacts = [ex_bob], chat_groups = [\<lparr> gid = 9, g_owner_id = 1 \<rparr>],
              contact_groups = [\<lparr> contact_id = 1, group_id = 9 \<rparr>], group_members = [] \<rparr>"

text \<open>The same, with one row in \<open>group_members\<close> for group 9.\<close>

definition ex_joined :: db where
  "ex_joined = ex_one\<lparr> group_members := [\<lparr> gm_group_id = 9, gm_user_id = JStr (lit ''15551234567'') \<rparr>] \<rparr>"

definition ex_add_body :: json where
  "ex_add_body = JObj [(''userIds'', JArr [JStr (lit ''15551234567''), JStr (lit ''15550000002'')])]"

text \<open>A directory: three contacts of caller 1 and one of caller 2, not in name order.\<close>

definition ex_john :: contact where
  "ex_john = ex_bob\<lparr> cid := 4, phone_number := lit ''15550000004'', custom_name := lit ''John Doe'' \<rparr>"

definition ex_zed :: contact where
  "ex_zed = ex_bob\<lparr> cid := 2, phone_number := lit ''15550000002'', custom_name := lit ''Zed'',
                    email := Some (lit ''john@x.com''), company := Some (lit ''Doe, John and Sons''),
                    tags := Some [lit ''vip2''] \<rparr>"

definition ex_ann :: contact where
  "ex_ann = ex_bob\<lparr> cid := 3, owner_id := 2, phone_number := lit ''15550000003'',
                    custom_name := lit ''Johanna'', tags := None \<rparr>"

definition ex_directory :: db where
  "ex_directory = ex_empty\<lparr> contacts := [ex_zed, ex_ann, ex_john, ex_bob] \<rparr>"

text \<open>Request bodies: an update with only a name; an update that also names a phone number
  and an owner; an update that repeats the stored values; creations with a numeric phone
  number, with an empty name, and with a phone number in blanks.\<close>

definition ex_name_body :: json where
  "ex_name_body = JObj [(''customName'', JStr (lit ''Ann''))]"

definition ex_update_body :: json where
  "ex_update_body = JObj [(''customName'', JStr (lit '' Robert '')), (''phoneNumber'', JStr (lit ''999'')),
                          (''owner_id'', JNum 2), (''email'', JStr (lit ''bob@x.com''))]"

definition ex_robert :: contact where
  "ex_robert = ex_bob\<lparr> custom_name := lit ''Robert'', email := Some (lit ''bob@x.com''), tags := None,
                       updated_at := 6 \<rparr>"

definition ex_same_body :: json where
  "ex_same_body = JObj [(''customName'', JStr (lit ''Bob'')), (''tags'', JArr [JStr (lit ''vip'')])]"





text \<open>A membership row whose joined contact is absent.\<close>

definition ex_orphan :: ContactGroupMemberData where
  "ex_orphan = \<lparr> cgm_contact_id = 4, cgm_contacts = None \<rparr>"






section \<open>Authentication comes first\<close>

lemma authenticated_None: "authError s \<or> user s = None \<Longrightarrow> authenticated s = None"
  by (auto simp: authenticated_def)

lemma authenticated_ex_caller: "authenticated ex_caller = Some 1"
  by (simp add: authenticated_def ex_caller_def)

lemmas text_eval = lit_def trim_def is_space_def storable_def opt_storable_def

lemma uuid_in_examples:
  "uuid_in ex_id_1 = Some 1" "uuid_in ex_id_7 = Some 7" "uuid_in ex_id_9 = Some 9"
  "uuid_in ex_id_abc = None"
  by (simp_all add: uuid_in_def ex_id_1_def ex_id_7_def ex_id_9_def ex_id_abc_def lit_def hex_digit_def)

text \<open>
  Claim C7.  Each of the nine handlers, called without an authenticated caller (the guard
  \<open>authError || !user\<close>), answers 401 Unauthorized; the answer is the same constant whatever
  the store holds, so nothing was read, and the store is returned as it was.
\<close>

theorem unauthenticated_is_refused:
  assumes "authError s \<or> user s = None"
  shows "GET_contacts s d = unauthorized
       \<and> POST_contacts e s req d = (unauthorized, d)
       \<and> GET_contact s i d = unauthorized
       \<and> PUT_contact e s i req d = (unauthorized, d)
       \<and> DELETE_contact s i d = (unauthorized, d)
       \<and> GET_search s q t d = unauthorized
       \<and> GET_members s g d = unauthorized
       \<and> POST_members uq s g req d = (unauthorized, d)
       \<and> DELETE_member s g m d = (unauthorized, d)
       \<and> unauthorized = Response 401 (ErrorBody ''Unauthorized'' None)"
  using authenticated_None [OF assms]
  by (simp add: GET_contacts_def POST_contacts_def GET_contact_def PUT_contact_def
        DELETE_contact_def GET_search_def GET_members_def POST_members_def DELETE_member_def
        unauthorized_def)

theorem unauthenticated_is_refused_witness:
  "(authError ex_anonymous \<or> user ex_anonymous = None)
   \<and> GET_contacts ex_anonymous ex_one = unauthorized
   \<and> POST_contacts ex_clock ex_anonymous None ex_one = (unauthorized, ex_one)
   \<and> GET_contact ex_anonymous ex_id_1 ex_one = unauthorized
   \<and> PUT_contact ex_clock ex_anonymous ex_id_1 None ex_one = (unauthorized, ex_one)
   \<and> DELETE_contact ex_anonymous ex_id_1 ex_one = (unauthorized, ex_one)
   \<and> GET_search ex_anonymous None None ex_one = unauthorized
   \<and> GET_members ex_anonymous ex_id_9 ex_one = unauthorized
   \<and> POST_members True ex_anonymous ex_id_9 None ex_one = (unauthorized, ex_one)
   \<and> DELETE_member ex_anonymous ex_id_9 None ex_one = (unauthorized, ex_one)
   \<and> unauthorized = Response 401 (ErrorBody ''Unauthorized'' None)"
proof -
  have h: "authError ex_anonymous \<or> user ex_anonymous = None"
    by (simp add: ex_anonymous_def)
  show ?thesis
    using h unauthenticated_is_refused [OF h, of ex_one ex_clock None ex_id_1 None None ex_id_9 True None]
    by simp
qed

section \<open>Update and delete of a contact that is not there\<close>

text \<open>The update handler has no branch that answers 404.\<close>

lemma PUT_contact_never_404: "status (fst (PUT_contact e s i req d)) \<noteq> 404"
  by (auto simp: PUT_contact_def unauthorized_def failed_def
           split: option.splits sum.splits prod.splits)

lemma single_Nil:
  "single [] = Inl (DbError ''PGRST116'' ''JSON object requested, multiple (or no) rows returned'')"
  by (simp add: single_def)

lemma no_row:
  "\<not> list_ex (\<lambda>c. cid c = u \<and> owner_id c = uid) (contacts d) \<Longrightarrow>
     filter (\<lambda>c. rls_contact uid c \<and> cid c = u \<and> owner_id c = uid) (contacts d) = []"
  by (auto simp: list_ex_iff filter_empty_conv)

text \<open>When the caller has no contact with the id, \<open>GET\<close> answers 404 and \<open>PUT\<close>, given a
  name, answers 500.\<close>

lemma GET_contact_absent_is_404:
  assumes "authenticated s = Some uid" and "uuid_in i = Some u"
    and "\<not> list_ex (\<lambda>c. cid c = u \<and> owner_id c = uid) (contacts d)"
  shows "GET_contact s i d = Response 404 (ErrorBody ''Contact not found'' None)"
  using assms(1,2) by (simp add: GET_contact_def select_contact_def no_row [OF assms(3)] single_Nil)

lemma update_contact_absent:
  assumes "uuid_in i = Some u"
    and "\<not> list_ex (\<lambda>c. cid c = u \<and> owner_id c = uid) (contacts d)"
  shows "\<exists>err. update_contact e uid i uid v d = Inl err"
  using assms(1)
  by (simp add: update_contact_def Let_def no_row [OF assms(2)] single_Nil split: option.splits)

lemma PUT_contact_absent_is_500:
  assumes "authenticated s = Some uid" and "uuid_in i = Some u"
    and "\<not> list_ex (\<lambda>c. cid c = u \<and> owner_id c = uid) (contacts d)"
    and "destructure body = Some f" and "truthy (f ''customName'')"
  shows "PUT_contact e s i (Some body) d
           = (Response 500 (ErrorBody ''Failed to update contact'' None), d)"
proof (cases "update_values f")
  case (Inl err)
  then show ?thesis
    using assms(1,4,5) by (simp add: PUT_contact_def bind_exn_def failed_def)
next
  case (Inr v)
  obtain err where "update_contact e uid i uid v d = Inl err"
    using update_contact_absent [OF assms(2,3)] by blast
  then show ?thesis
    using assms(1,4,5) Inr by (simp add: PUT_contact_def bind_exn_def failed_def)
qed

text \<open>
  Claim C2.  An update of a contact that does not exist, or that another account owns, should
  end in NotFound (404).  On the empty store, \<open>GET\<close> on id 7 answers 404 (it maps
  \<open>PGRST116\<close>), while \<open>PUT\<close> on the same id with a valid body rethrows the same error into
  its \<open>catch\<close> and answers 500; so does \<open>PUT\<close> by caller 2 on the contact of caller 1.
\<close>

theorem PUT_absent_contact_is_500:
  "GET_contact ex_caller ex_id_7 ex_empty = Response 404 (ErrorBody ''Contact not found'' None)
   \<and> PUT_contact ex_clock ex_caller ex_id_7 (Some ex_name_body) ex_empty
       = (Response 500 (ErrorBody ''Failed to update contact'' None), ex_empty)
   \<and> PUT_contact ex_clock ex_other ex_id_1 (Some ex_name_body) ex_one
       = (Response 500 (ErrorBody ''Failed to update contact'' None), ex_one)"
  by (simp add: GET_contact_def PUT_contact_def select_contact_def update_contact_def
        uuid_in_examples ex_caller_def ex_other_def ex_empty_def ex_one_def ex_bob_def
        ex_name_body_def authenticated_def single_def failed_def get_prop_def update_values_def
        bind_exn_def rls_contact_def values_in_def text_eval)

lemma delete_contact_Inr:
  assumes "uuid_in i = Some u"
  shows "delete_contact uid i uid d
       = Inr (d\<lparr> contacts := filter (\<lambda>c. \<not> (cid c = u \<and> owner_id c = uid)) (contacts d),
                 contact_groups :=
                   filter (\<lambda>m. \<not> (contact_id m = u \<and> list_ex (\<lambda>c. cid c = u \<and> owner_id c = uid) (contacts d)))
                     (contact_groups d) \<rparr>)"
proof -
  let ?hit = "\<lambda>c. rls_contact uid c \<and> cid c = u \<and> owner_id c = uid"
  have c: "filter (\<lambda>c. \<not> ?hit c) (contacts d)
             = filter (\<lambda>c. \<not> (cid c = u \<and> owner_id c = uid)) (contacts d)"
    by (auto simp: rls_contact_def intro!: filter_cong)
  have g: "set (map cid (filter ?hit (contacts d)))
          = (if list_ex (\<lambda>c. cid c = u \<and> owner_id c = uid) (contacts d) then {u} else {})"
    by (auto simp: list_ex_iff rls_contact_def)
  have g': "filter (\<lambda>m. contact_id m \<notin> set (map cid (filter ?hit (contacts d)))) (contact_groups d)
          = filter (\<lambda>m. \<not> (contact_id m = u \<and> list_ex (\<lambda>c. cid c = u \<and> owner_id c = uid) (contacts d)))
              (contact_groups d)"
    unfolding g by simp
  have e: "delete_contact uid i uid d
       = Inr (d\<lparr> contacts := filter (\<lambda>c. \<not> ?hit c) (contacts d),
                 contact_groups :=
                   filter (\<lambda>m. contact_id m \<notin> set (map cid (filter ?hit (contacts d)))) (contact_groups d) \<rparr>)"
    by (simp add: delete_contact_def Let_def assms)
  show ?thesis
    unfolding e c g' by (rule refl)
qed

lemma delete_nothing:
  assumes "\<not> list_ex (\<lambda>c. cid c = u \<and> owner_id c = uid) (contacts d)"
  shows "d\<lparr> contacts := filter (\<lambda>c. \<not> (cid c = u \<and> owner_id c = uid)) (contacts d),
           contact_groups :=
             filter (\<lambda>m. \<not> (contact_id m = u \<and> list_ex (\<lambda>c. cid c = u \<and> owner_id c = uid) (contacts d)))
               (contact_groups d) \<rparr> = d"
proof -
  have c: "filter (\<lambda>c. \<not> (cid c = u \<and> owner_id c = uid)) (contacts d) = contacts d"
    using assms by (auto simp: list_ex_iff filter_id_conv)
  have g: "filter (\<lambda>m. \<not> (contact_id m = u \<and> list_ex (\<lambda>c. cid c = u \<and> owner_id c = uid) (contacts d)))
             (contact_groups d) = contact_groups d"
    using assms by simp
  show ?thesis
    unfolding c g by simp
qed

text \<open>
  Claim C3, as stated, fails: deleting an id that no row has answers 200 with the success
  message, not 404.
\<close>

theorem DELETE_absent_contact_is_200:
  "DELETE_contact ex_caller ex_id_7 ex_empty
     = (Response 200 (MessageBody ''Contact deleted successfully''), ex_empty)
   \<and> status (fst (DELETE_contact ex_caller ex_id_7 ex_empty)) \<noteq> 404"
  by (simp add: DELETE_contact_def authenticated_ex_caller delete_contact_def uuid_in_examples
        ex_empty_def)

text \<open>
  Claim C3, amended.  For an authenticated caller: when the id is a well-formed UUID the
  delete answers success whether or not a row matches; the rows with that id owned by the
  caller are removed (and their memberships with them), every other table is untouched, and
  when there is no such row, absent or owned by another account, the store is left as it
  was.  When the id is not a well-formed UUID the database refuses the statement, the
  handler answers 500 and the store is left as it was.  In no case is the answer 404.
\<close>

theorem DELETE_contact_outcomes:
  assumes "authenticated s = Some uid"
  shows "(uuid_in i = None \<longrightarrow>
            DELETE_contact s i d = (Response 500 (ErrorBody ''Failed to delete contact'' None), d))
       \<and> (uuid_in i = Some u \<longrightarrow>
            fst (DELETE_contact s i d) = Response 200 (MessageBody ''Contact deleted successfully'')
          \<and> contacts (snd (DELETE_contact s i d))
              = filter (\<lambda>c. \<not> (cid c = u \<and> owner_id c = uid)) (contacts d)
          \<and> contact_groups (snd (DELETE_contact s i d))
              = filter (\<lambda>m. \<not> (contact_id m = u \<and> list_ex (\<lambda>c. cid c = u \<and> owner_id c = uid) (contacts d)))
                  (contact_groups d)
          \<and> chat_groups (snd (DELETE_contact s i d)) = chat_groups d
          \<and> group_members (snd (DELETE_contact s i d)) = group_members d
          \<and> (\<not> list_ex (\<lambda>c. cid c = u \<and> owner_id c = uid) (contacts d)
               \<longrightarrow> snd (DELETE_contact s i d) = d))
       \<and> status (fst (DELETE_contact s i d)) \<noteq> 404"
proof -
  have a: "uuid_in i = None \<longrightarrow>
            DELETE_contact s i d = (Response 500 (ErrorBody ''Failed to delete contact'' None), d)"
    using assms by (simp add: DELETE_contact_def delete_contact_def failed_def)
  have b: "uuid_in i = Some u \<longrightarrow>
            fst (DELETE_contact s i d) = Response 200 (MessageBody ''Contact deleted successfully'')
          \<and> contacts (snd (DELETE_contact s i d))
              = filter (\<lambda>c. \<not> (cid c = u \<and> owner_id c = uid)) (contacts d)
          \<and> contact_groups (snd (DELETE_contact s i d))
              = filter (\<lambda>m. \<not> (contact_id m = u \<and> list_ex (\<lambda>c. cid c = u \<and> owner_id c = uid) (contacts d)))
                  (contact_groups d)
          \<and> chat_groups (snd (DELETE_contact s i d)) = chat_groups d
          \<and> group_members (snd (DELETE_contact s i d)) = group_members d
          \<and> (\<not> list_ex (\<lambda>c. cid c = u \<and> owner_id c = uid) (contacts d)
               \<longrightarrow> snd (DELETE_contact s i d) = d)"
  proof
    assume i: "uuid_in i = Some u"
    have r: "DELETE_contact s i d
      = (Response 200 (MessageBody ''Contact deleted successfully''),
         d\<lparr> contacts := filter (\<lambda>c. \<not> (cid c = u \<and> owner_id c = uid)) (contacts d),
            contact_groups :=
              filter (\<lambda>m. \<not> (contact_id m = u \<and> list_ex (\<lambda>c. cid c = u \<and> owner_id c = uid) (contacts d)))
                (contact_groups d) \<rparr>)"
      unfolding DELETE_contact_def delete_contact_Inr [OF i] using assms by simp
    show "fst (DELETE_contact s i d) = Response 200 (MessageBody ''Contact deleted successfully'')
          \<and> contacts (snd (DELETE_contact s i d))
              = filter (\<lambda>c. \<not> (cid c = u \<and> owner_id c = uid)) (contacts d)
          \<and> contact_groups (snd (DELETE_contact s i d))
              = filter (\<lambda>m. \<not> (contact_id m = u \<and> list_ex (\<lambda>c. cid c = u \<and> owner_id c = uid) (contacts d)))
                  (contact_groups d)
          \<and> chat_groups (snd (DELETE_contact s i d)) = chat_groups d
          \<and> group_members (snd (DELETE_contact s i d)) = group_members d
          \<and> (\<not> list_ex (\<lambda>c. cid c = u \<and> owner_id c = uid) (contacts d)
               \<longrightarrow> snd (DELETE_contact s i d) = d)"
      unfolding r using delete_nothing [of u uid d] by simp
  qed
  have c: "status (fst (DELETE_contact s i d)) \<noteq> 404"
    using assms by (simp add: DELETE_contact_def failed_def split: sum.splits)
  show ?thesis using a b c by blast
qed

theorem DELETE_contact_outcomes_witness:
  "authenticated ex_caller = Some 1
   \<and> uuid_in ex_id_abc = None
   \<and> DELETE_contact ex_caller ex_id_abc ex_one
       = (Response 500 (ErrorBody ''Failed to delete contact'' None), ex_one)
   \<and> uuid_in ex_id_1 = Some 1
   \<and> fst (DELETE_contact ex_caller ex_id_1 ex_one) = Response 200 (MessageBody ''Contact deleted successfully'')
   \<and> contacts (snd (DELETE_contact ex_caller ex_id_1 ex_one)) = []
   \<and> contact_groups (snd (DELETE_contact ex_caller ex_id_1 ex_one)) = []
   \<and> uuid_in ex_id_7 = Some 7
   \<and> \<not> list_ex (\<lambda>c. cid c = 7 \<and> owner_id c = 1) (contacts ex_one)
   \<and> snd (DELETE_contact ex_caller ex_id_7 ex_one) = ex_one"
proof -
  have n: "\<not> list_ex (\<lambda>c. cid c = 7 \<and> owner_id c = 1) (contacts ex_one)"
    by (simp add: ex_one_def ex_bob_def)
  show ?thesis
    using n authenticated_ex_caller uuid_in_examples
      DELETE_contact_outcomes [OF authenticated_ex_caller, of ex_id_abc ex_one 0]
      DELETE_contact_outcomes [OF authenticated_ex_caller, of ex_id_1 ex_one 1]
      DELETE_contact_outcomes [OF authenticated_ex_caller, of ex_id_7 ex_one 7]
    by (simp add: ex_one_def ex_bob_def)
qed

section \<open>What an update leaves alone\<close>

lemma lit_empty [simp]: "lit s = [] \<longleftrightarrow> s = []"
  by (simp add: lit_def)

lemma trim_examples:
  "trim (lit ''Bob'') = lit ''Bob''" "trim (lit '' Robert '') = lit ''Robert''"
  "trim (lit ''bob@x.com'') = lit ''bob@x.com''" "trim (lit ''Alice'') = lit ''Alice''"
  "trim (lit '' 15551234567 '') = lit ''15551234567''" "trim (lit ''  '') = []"
  "trim (lit ''15551234567'') = lit ''15551234567''" "trim (lit ''Team'') = lit ''Team''"
  by (simp_all add: lit_def trim_def is_space_def)

lemma storable_examples:
  "storable (lit ''Bob'')" "storable (lit ''Robert'')" "storable (lit ''bob@x.com'')"
  "storable (lit ''Alice'')" "storable (lit ''15551234567'')" "storable (lit ''vip'')"
  "storable (lit ''15550000002'')"
  by (simp_all add: lit_def storable_def)

text \<open>
  Claim C4, as stated, fails: ``only custom name, whatsapp name, email, company, position,
  address, notes and tags may change''.  An update that repeats the stored name and tags
  still changes the row: trigger \<open>contacts_updated_at\<close> moves \<open>updated_at\<close> from 1 to 6.
\<close>

theorem PUT_contact_moves_updated_at:
  "PUT_contact ex_clock ex_caller ex_id_1 (Some ex_same_body) ex_one
     = (Response 200 (ContactBody (ex_bob\<lparr>updated_at := 6\<rparr>) (Some ''Contact updated successfully'')),
        ex_one\<lparr>contacts := [ex_bob\<lparr>updated_at := 6\<rparr>]\<rparr>)
   \<and> updated_at (ex_bob\<lparr>updated_at := 6\<rparr>) \<noteq> updated_at ex_bob"
  by (simp add: PUT_contact_def authenticated_ex_caller ex_same_body_def get_prop_def
        update_values_def bind_exn_def trim_examples storable_examples update_contact_def
        uuid_in_examples values_in_def opt_storable_def rls_contact_def
        ex_one_def ex_bob_def single_def apply_update_def ex_clock_def)

lemma update_contact_Inr:
  assumes "update_contact e uid i uid v d = Inr (row, d')"
  shows "\<exists>u tg. uuid_in i = Some u
           \<and> d' = d\<lparr>contacts := map (\<lambda>c. if cid c = u \<and> owner_id c = uid then apply_update e v tg c else c)
                                     (contacts d)\<rparr>"
proof -
  have h: "(\<lambda>c. rls_contact uid c \<and> cid c = u \<and> owner_id c = uid) = (\<lambda>c. cid c = u \<and> owner_id c = uid)" for u
    by (auto simp: rls_contact_def)
  show ?thesis
    using assms unfolding update_contact_def Let_def h
    by (auto split: option.splits sum.splits)
qed

lemma PUT_contact_200:
  assumes "PUT_contact e s i req d = (Response 200 b, d')"
  shows "\<exists>uid v row. authenticated s = Some uid
           \<and> update_contact e uid i uid (v::contact_update) d = Inr (row, d')"
  using assms
  by (auto simp: PUT_contact_def unauthorized_def failed_def bind_exn_def
           split: option.splits if_splits sum.splits prod.splits)

text \<open>
  Claim C4, amended.  After a successful update, whatever the request body held, every row
  of \<open>contacts\<close> is the row it was except for the eight editable fields and \<open>updated_at\<close>;
  in particular phone number and owner are the same.  A row that changed at all is the
  caller's row with the given id, and its \<open>updated_at\<close> is the database's \<open>NOW()\<close>.  The
  other tables are untouched.
\<close>

theorem PUT_contact_frame:
  assumes "PUT_contact e s i req d = (Response 200 b, d')"
  shows "list_all2
           (\<lambda>c c'. c' = c\<lparr> custom_name := custom_name c', whatsapp_name := whatsapp_name c',
                           email := email c', company := company c', position := position c',
                           address := address c', notes := notes c', tags := tags c',
                           updated_at := updated_at c' \<rparr>
                  \<and> phone_number c' = phone_number c \<and> owner_id c' = owner_id c
                  \<and> (c' \<noteq> c \<longrightarrow> uuid_in i = Some (cid c) \<and> authenticated s = Some (owner_id c)
                                   \<and> updated_at c' = db_now e))
           (contacts d) (contacts d')
       \<and> chat_groups d' = chat_groups d \<and> contact_groups d' = contact_groups d
       \<and> group_members d' = group_members d"
proof -
  obtain uid v row where a: "authenticated s = Some uid"
      and u: "update_contact e uid i uid (v::contact_update) d = Inr (row, d')"
    using PUT_contact_200 [OF assms] by blast
  obtain u tg where i: "uuid_in i = Some u"
    and d': "d' = d\<lparr>contacts := map (\<lambda>c. if cid c = u \<and> owner_id c = uid then apply_update e v tg c else c)
                                   (contacts d)\<rparr>"
    using update_contact_Inr [OF u] by blast
  show ?thesis
    unfolding d' using a i
    by (simp add: list_all2_map2 list_all2_same apply_update_def)
qed

theorem PUT_contact_frame_witness:
  "PUT_contact ex_clock ex_caller ex_id_1 (Some ex_update_body) ex_one
     = (Response 200 (ContactBody ex_robert (Some ''Contact updated successfully'')),
        ex_one\<lparr>contacts := [ex_robert]\<rparr>)
   \<and> phone_number ex_robert = phone_number ex_bob \<and> owner_id ex_robert = owner_id ex_bob
   \<and> phone_number ex_robert = lit ''15551234567'' \<and> owner_id ex_robert = 1"
proof -
  have p: "PUT_contact ex_clock ex_caller ex_id_1 (Some ex_update_body) ex_one
     = (Response 200 (ContactBody ex_robert (Some ''Contact updated successfully'')),
        ex_one\<lparr>contacts := [ex_robert]\<rparr>)"
    by (simp add: PUT_contact_def authenticated_ex_caller ex_update_body_def get_prop_def
          update_values_def bind_exn_def trim_examples storable_examples update_contact_def
          uuid_in_examples values_in_def opt_storable_def rls_contact_def
          ex_one_def ex_bob_def single_def apply_update_def ex_clock_def ex_robert_def)
  show ?thesis
    using p PUT_contact_frame [OF p]
    by (simp add: ex_one_def ex_robert_def ex_bob_def)
qed

section \<open>Creating a contact\<close>











text \<open>A body that is not JSON, or is \<open>null\<close>, is answered with 500 as well.\<close>

lemma POST_contacts_unreadable_body_is_500:
  assumes "authenticated s = Some uid" and "req = None \<or> req = Some JNull"
  shows "POST_contacts e s req d = (Response 500 (ErrorBody ''Failed to create contact'' None), d)"
  using assms by (auto simp: POST_contacts_def failed_def)



section \<open>Adding members that are already there\<close>

text \<open>With the uniqueness constraint, a request that names any member already stored is
  answered with 500 and stores nothing.\<close>

lemma POST_members_conflict_is_500:
  assumes "authenticated s = Some uid" and "owned_group uid g d = Some grp"
    and "destructure body = Some f" and "f ''userIds'' = JArr ids"
    and "list_all sendable ids"
    and "u \<in> set ids" and "\<lparr> gm_group_id = gid grp, gm_user_id = u \<rparr> \<in> set (group_members d)"
  shows "POST_members True s g (Some body) d
           = (Response 500 (ErrorBody ''Failed to add members''
                              (Some ''duplicate key value violates unique constraint'')), d)"
proof -
  obtain x xs where ids: "ids = x # xs"
    using assms(6) by (cases ids) auto
  let ?rows = "map (\<lambda>userId. \<lparr> gm_group_id = gid grp, gm_user_id = userId \<rparr>) ids"
  have a: "list_all (\<lambda>r. sendable (gm_user_id r)) ?rows"
    using assms(5) by (simp add: list_all_iff)
  have b: "list_ex (\<lambda>r. r \<in> set (group_members d)) ?rows"
    using assms(6,7) by (auto simp: list_ex_iff)
  have "insert_group_members True ?rows d
          = Inl (DbError ''23505'' ''duplicate key value violates unique constraint'')"
    using a b by (simp add: insert_group_members_def)
  then show ?thesis
    using assms(1-4) unfolding ids by (simp add: POST_members_def)
qed

text \<open>
  Claim C1.  Adding members of which one is already in the group should skip that one,
  report success, and leave one row for the pair; the handler's comment says so
  (``duplicates will be ignored due to unique constraint'').  Group 9 of caller 1 has the
  member \<open>15551234567\<close>; the request adds that member and a new one.  With the uniqueness
  constraint the statement fails as a whole: the answer is 500 and the new member is not
  added either.  Without the constraint the answer is success and the pair is stored twice.
\<close>

theorem POST_members_duplicate_not_ignored:
  "POST_members True ex_caller ex_id_9 (Some ex_add_body) ex_joined
     = (Response 500 (ErrorBody ''Failed to add members''
                        (Some ''duplicate key value violates unique constraint'')), ex_joined)
   \<and> POST_members False ex_caller ex_id_9 (Some ex_add_body) ex_joined
     = (Response 200 (AddedBody 2),
        ex_joined\<lparr>group_members := [\<lparr> gm_group_id = 9, gm_user_id = JStr (lit ''15551234567'') \<rparr>,
                                     \<lparr> gm_group_id = 9, gm_user_id = JStr (lit ''15551234567'') \<rparr>,
                                     \<lparr> gm_group_id = 9, gm_user_id = JStr (lit ''15550000002'') \<rparr>]\<rparr>)"
  by (simp add: POST_members_def authenticated_ex_caller ex_add_body_def get_prop_def
        owned_group_def uuid_in_examples single_def insert_group_members_def storable_examples
        ex_joined_def ex_one_def)

section \<open>Search\<close>

lemma startsWith_iff: "startsWith s q \<longleftrightarrow> (\<exists>v. s = q @ v)"
  by (induction s q rule: startsWith.induct) auto

lemma js_includes_iff: "js_includes s q \<longleftrightarrow> (\<exists>u v. s = u @ q @ v)"
proof (induction s)
  case Nil
  then show ?case by auto
next
  case (Cons x xs)
  show ?case
  proof
    assume "js_includes (x # xs) q"
    then consider "startsWith (x # xs) q" | "js_includes xs q" by auto
    then show "\<exists>u v. x # xs = u @ q @ v"
    proof cases
      case 1
      then obtain v where "x # xs = q @ v" using startsWith_iff by blast
      then have "x # xs = [] @ q @ v" by simp
      then show ?thesis by blast
    next
      case 2
      then obtain u v where "xs = u @ q @ v" using Cons.IH by blast
      then have "x # xs = (x # u) @ q @ v" by simp
      then show ?thesis by blast
    qed
  next
    assume "\<exists>u v. x # xs = u @ q @ v"
    then obtain u v where e: "x # xs = u @ q @ v" by blast
    show "js_includes (x # xs) q"
    proof (cases u)
      case Nil
      then have "startsWith (x # xs) q" using e startsWith_iff by auto
      then show ?thesis by simp
    next
      case (Cons y ys)
      then have "xs = ys @ q @ v" using e by simp
      then have "js_includes xs q" using Cons.IH by blast
      then show ?thesis by simp
    qed
  qed
qed

text \<open>A run of literal characters at the head of a pattern must be the head of the text.\<close>

lemma like_literal_prefix:
  "list_all literal p \<Longrightarrow> like_match (p @ r) s \<longleftrightarrow> (\<exists>t. s = p @ t \<and> like_match r t)"
proof (induction p arbitrary: s)
  case Nil
  then show ?case by simp
next
  case (Cons c p)
  from Cons.prems have p: "list_all literal p" and "literal c"
    by simp_all
  then have c: "c \<noteq> 37" "c \<noteq> 95" "c \<noteq> 92"
    by (simp_all add: literal_def)
  show ?case
  proof (cases s)
    case Nil
    then show ?thesis using c by simp
  next
    case (Cons x t)
    then show ?thesis using c Cons.IH [OF p, of t] by auto
  qed
qed

lemma like_percent_only: "like_match [37] s"
  by (induction s) simp_all

text \<open>A leading \<open>%\<close> lets the rest of the pattern start anywhere.\<close>

lemma like_percent:
  "like_match (37 # r) s \<longleftrightarrow> (\<exists>u v. s = u @ v \<and> like_match r v)"
proof (induction s)
  case Nil
  then show ?case by simp
next
  case (Cons x t)
  have "like_match (37 # r) (x # t) \<longleftrightarrow> like_match r (x # t) \<or> like_match (37 # r) t"
    by simp
  also have "\<dots> \<longleftrightarrow> like_match r (x # t) \<or> (\<exists>u v. t = u @ v \<and> like_match r v)"
    using Cons.IH by simp
  also have "\<dots> \<longleftrightarrow> (\<exists>u v. x # t = u @ v \<and> like_match r v)"
  proof
    assume "like_match r (x # t) \<or> (\<exists>u v. t = u @ v \<and> like_match r v)"
    then show "\<exists>u v. x # t = u @ v \<and> like_match r v"
    proof
      assume "like_match r (x # t)"
      then have "x # t = [] @ (x # t) \<and> like_match r (x # t)" by simp
      then show ?thesis by blast
    next
      assume "\<exists>u v. t = u @ v \<and> like_match r v"
      then obtain u v where "t = u @ v" "like_match r v" by blast
      then have "x # t = (x # u) @ v \<and> like_match r v" by simp
      then show ?thesis by blast
    qed
  next
    assume "\<exists>u v. x # t = u @ v \<and> like_match r v"
    then obtain u v where e: "x # t = u @ v" and m: "like_match r v" by blast
    show "like_match r (x # t) \<or> (\<exists>u v. t = u @ v \<and> like_match r v)"
    proof (cases u)
      case Nil
      then show ?thesis using e m by simp
    next
      case (Cons y ys)
      then have "t = ys @ v" using e by simp
      then show ?thesis using m by blast
    qed
  qed
  finally show ?case .
qed

lemma like_substring:
  assumes "list_all literal q"
  shows "like_match ([37] @ q @ [37]) s \<longleftrightarrow> js_includes s q"
proof -
  have "like_match ([37] @ q @ [37]) s \<longleftrightarrow> (\<exists>u v. s = u @ v \<and> like_match (q @ [37]) v)"
    using like_percent [of "q @ [37]" s] by simp
  also have "\<dots> \<longleftrightarrow> (\<exists>u v. s = u @ v \<and> (\<exists>t. v = q @ t \<and> like_match [37] t))"
    using like_literal_prefix [OF assms, of "[37]"] by simp
  also have "\<dots> \<longleftrightarrow> (\<exists>u t. s = u @ q @ t)"
    using like_percent_only by auto
  finally show ?thesis by (simp add: js_includes_iff)
qed

text \<open>Case folding neither makes nor unmakes a pattern character.\<close>

lemma lower_char_literal: "literal c \<Longrightarrow> literal (lower_char c)"
  by (auto simp: literal_def lower_char_def)

lemma lower_pattern:
  "42 \<notin> set q \<Longrightarrow> toLowerCase (ilike_pattern q) = [37] @ toLowerCase q @ [37]"
  by (auto simp: ilike_pattern_def toLowerCase_def lower_char_def)

lemma plain_query_literal:
  assumes "plain_query q"
  shows "list_all literal (toLowerCase q)"
proof -
  have "\<forall>c \<in> set q. literal c"
    using assms by (auto simp: plain_query_def list_all_iff literal_def)
  then show ?thesis
    by (auto simp: toLowerCase_def list_all_iff intro: lower_char_literal)
qed

text \<open>For a plain query the pattern match is substring containment without regard to case.\<close>

lemma ilike_plain:
  assumes "plain_query q"
  shows "ilike col (ilike_pattern q) = ci_has_substring col q"
proof -
  have s: "42 \<notin> set q"
    using assms by (auto simp: plain_query_def list_all_iff)
  have "like_match (toLowerCase (ilike_pattern q)) x = js_includes x (toLowerCase q)" for x
    unfolding lower_pattern [OF s] by (rule like_substring [OF plain_query_literal [OF assms]])
  then show ?thesis
    by (simp add: ilike_def ci_has_substring_def split: option.splits)
qed

lemma or_filter_plain:
  assumes "plain_query q"
  shows "or_filter q = Some (spec_matches_query q)"
proof -
  have s: "44 \<notin> set q" "41 \<notin> set q" "storable q"
    using assms by (auto simp: plain_query_def list_all_iff)
  show ?thesis
    using s by (simp add: or_filter_def spec_matches_query_def [abs_def] ilike_plain [OF assms])
qed

lemma contains_filter_plain:
  assumes "plain_tag t" and "t \<noteq> []"
  shows "contains_filter t = Some (spec_has_tag t)"
proof -
  have a: "\<not> list_ex (\<lambda>c. c \<in> set [44, 123, 125, 34, 92]) t"
    using assms(1) by (auto simp: plain_tag_def list_all_iff list_ex_iff)
  have b: "array_element t = t" "toLowerCase t \<noteq> lit ''null''" "storable t"
    using assms(1) by (simp_all add: plain_tag_def)
  show ?thesis
    using a b assms(2)
    by (simp add: contains_filter_def spec_has_tag_def [abs_def] cong: option.case_cong)
qed

lemma length_order_by: "length (order_by_custom_name cs) = length cs"
  by (simp add: order_by_custom_name_def)

lemma set_order_by: "set (order_by_custom_name cs) = set cs"
  by (simp add: order_by_custom_name_def)

lemma sorted_order_by: "sorted (map custom_name (order_by_custom_name cs))"
  by (simp add: order_by_custom_name_def)

text \<open>
  On plain text the search does what the specification says: for an authenticated caller,
  a query that is absent, empty or plain and a tag that is absent, empty or plain, the
  answer is 200 with exactly the caller's contacts that contain the query, without regard
  to case, in one of the five fields and carry the tag, ordered by custom name.
\<close>

lemma GET_search_plain:
  assumes "authenticated s = Some uid"
    and "\<forall>x. q = Some x \<longrightarrow> plain_query x"
    and "\<forall>t. tag = Some t \<and> t \<noteq> [] \<longrightarrow> plain_tag t"
  shows "GET_search s q tag d
           = Response 200 (SearchBody (order_by_custom_name (filter (spec_search uid q tag) (contacts d)))
                             (length (filter (spec_search uid q tag) (contacts d)))
                             (case q of None \<Rightarrow> [] | Some x \<Rightarrow> x) tag)"
proof -
  let ?query = "case q of None \<Rightarrow> [] | Some x \<Rightarrow> x"
  have bq: "(if ?query \<noteq> [] then or_filter ?query else Some (\<lambda>c. True))
              = Some (\<lambda>c. case q of None \<Rightarrow> True | Some x \<Rightarrow> x = [] \<or> spec_matches_query x c)"
    using assms(2) by (cases q) (auto simp: or_filter_plain)
  have bt: "(case tag of None \<Rightarrow> Some (\<lambda>c. True)
                       | Some t \<Rightarrow> if t \<noteq> [] then contains_filter t else Some (\<lambda>c. True))
              = Some (\<lambda>c. case tag of None \<Rightarrow> True | Some t \<Rightarrow> t = [] \<or> spec_has_tag t c)"
    using assms(3) by (cases tag) (auto simp: contains_filter_plain)
  have p: "(\<lambda>c. rls_contact uid c \<and> owner_id c = uid
                 \<and> (case q of None \<Rightarrow> True | Some x \<Rightarrow> x = [] \<or> spec_matches_query x c)
                 \<and> (case tag of None \<Rightarrow> True | Some t \<Rightarrow> t = [] \<or> spec_has_tag t c))
            = spec_search uid q tag"
    by (auto simp: fun_eq_iff spec_search_def rls_contact_def)
  show ?thesis
    unfolding GET_search_def Let_def bq bt using assms(1) by (simp add: p length_order_by)
qed

lemma ex_directory_mine:
  "filter (\<lambda>c. owner_id c = 1) (contacts ex_directory) = [ex_zed, ex_john, ex_bob]"
  by (simp add: ex_directory_def ex_empty_def ex_zed_def ex_ann_def ex_john_def ex_bob_def)

lemma ex_directory_sorted:
  "order_by_custom_name [ex_zed, ex_john, ex_bob] = [ex_bob, ex_john, ex_zed]"
  by (simp add: order_by_custom_name_def ex_zed_def ex_john_def ex_bob_def lit_def)

text \<open>A query with a comma is cut at the comma when the filter text is read, and the
  request fails, though a contact has the words in its company and the page shows it.\<close>

lemma search_comma_is_500:
  "GET_search ex_caller (Some (lit ''Doe, John'')) None ex_directory
     = Response 500 (ErrorBody ''Failed to search contacts'' None)
   \<and> spec_matches_query (lit ''Doe, John'') ex_zed
   \<and> page_filter (lit ''Doe, John'') [ex_bob, ex_john, ex_zed] = [ex_zed]"
proof -
  have d: "GET_search ex_caller (Some (lit ''Doe, John'')) None ex_directory
     = Response 500 (ErrorBody ''Failed to search contacts'' None)"
    by (simp add: GET_search_def authenticated_ex_caller or_filter_def failed_def lit_def)
  have e: "spec_matches_query (lit ''Doe, John'') ex_zed"
    by (simp add: spec_matches_query_def ci_has_substring_def ex_zed_def ex_bob_def
          toLowerCase_def lower_char_def lit_def)
  have f: "page_filter (lit ''Doe, John'') [ex_bob, ex_john, ex_zed] = [ex_zed]"
    by (simp add: page_filter_def opt_includes_def ex_bob_def ex_john_def ex_zed_def
          toLowerCase_def lower_char_def lit_def trim_def is_space_def)
  show ?thesis using d e f by simp
qed

text \<open>
  Claim C6.  The search is to return the caller's contacts that contain the query as a
  substring of one of five fields, as the search box of the contacts page does with
  \<open>includes\<close>.  The handler puts the raw query into the pattern \<open>%${query}%\<close> without
  escaping it.  For the query \<open>_\<close> it returns all three contacts of the caller, though none
  of them has an underscore in any of the five fields and the page's filter shows none.
\<close>

theorem search_query_is_not_escaped:
  "GET_search ex_caller (Some (lit ''_'')) None ex_directory
     = Response 200 (SearchBody [ex_bob, ex_john, ex_zed] 3 (lit ''_'') None)
   \<and> \<not> spec_matches_query (lit ''_'') ex_bob \<and> \<not> spec_matches_query (lit ''_'') ex_john
   \<and> \<not> spec_matches_query (lit ''_'') ex_zed
   \<and> page_filter (lit ''_'') [ex_bob, ex_john, ex_zed] = []"
proof -
  have a: "GET_search ex_caller (Some (lit ''_'')) None ex_directory
     = Response 200 (SearchBody [ex_bob, ex_john, ex_zed] 3 (lit ''_'') None)"
    by (simp add: GET_search_def Let_def or_filter_def authenticated_ex_caller storable_def
          ex_directory_def ex_empty_def ex_zed_def ex_ann_def ex_john_def ex_bob_def
          rls_contact_def ilike_def ilike_pattern_def toLowerCase_def lower_char_def lit_def
          order_by_custom_name_def)
  have b: "\<not> spec_matches_query (lit ''_'') ex_bob" "\<not> spec_matches_query (lit ''_'') ex_john"
      "\<not> spec_matches_query (lit ''_'') ex_zed"
    by (simp_all add: spec_matches_query_def ci_has_substring_def ex_bob_def ex_john_def ex_zed_def
          toLowerCase_def lower_char_def lit_def)
  have c: "page_filter (lit ''_'') [ex_bob, ex_john, ex_zed] = []"
    by (simp add: page_filter_def opt_includes_def ex_bob_def ex_john_def ex_zed_def
          toLowerCase_def lower_char_def lit_def trim_def is_space_def)
  show ?thesis using a b c by simp
qed

section \<open>Search without filters\<close>

text \<open>
  Claim C9.  For an authenticated caller, a search with no query, or an empty one, and no
  tag (or an empty one) returns what the list returns: the caller's contacts, the same rows
  in the same order, by custom name ascending, with the same count.
\<close>

theorem search_without_filters_is_list:
  assumes "authenticated s = Some uid" and "q = None \<or> q = Some []" and "tag = None \<or> tag = Some []"
  shows "GET_contacts s d
           = Response 200 (ContactsBody (order_by_custom_name (filter (\<lambda>c. owner_id c = uid) (contacts d)))
                             (length (filter (\<lambda>c. owner_id c = uid) (contacts d))))
       \<and> GET_search s q tag d
           = Response 200 (SearchBody (order_by_custom_name (filter (\<lambda>c. owner_id c = uid) (contacts d)))
                             (length (filter (\<lambda>c. owner_id c = uid) (contacts d))) [] tag)
       \<and> sorted (map custom_name (order_by_custom_name (filter (\<lambda>c. owner_id c = uid) (contacts d))))"
proof -
  have f: "filter (\<lambda>c. rls_contact uid c \<and> owner_id c = uid) (contacts d)
             = filter (\<lambda>c. owner_id c = uid) (contacts d)"
    by (auto simp: rls_contact_def intro!: filter_cong)
  have a: "GET_contacts s d
           = Response 200 (ContactsBody (order_by_custom_name (filter (\<lambda>c. owner_id c = uid) (contacts d)))
                             (length (filter (\<lambda>c. owner_id c = uid) (contacts d))))"
    using assms(1) by (simp add: GET_contacts_def Let_def f length_order_by)
  have b: "GET_search s q tag d
           = Response 200 (SearchBody (order_by_custom_name (filter (\<lambda>c. owner_id c = uid) (contacts d)))
                             (length (filter (\<lambda>c. owner_id c = uid) (contacts d))) [] tag)"
    using assms by (auto simp: GET_search_def Let_def f length_order_by)
  show ?thesis using a b sorted_order_by by blast
qed

theorem search_without_filters_is_list_witness:
  "authenticated ex_caller = Some 1
   \<and> GET_contacts ex_caller ex_directory = Response 200 (ContactsBody [ex_bob, ex_john, ex_zed] 3)
   \<and> GET_search ex_caller (Some []) None ex_directory
       = Response 200 (SearchBody [ex_bob, ex_john, ex_zed] 3 [] None)
   \<and> GET_search ex_caller None None ex_directory
       = Response 200 (SearchBody [ex_bob, ex_john, ex_zed] 3 [] None)
   \<and> sorted (map custom_name [ex_bob, ex_john, ex_zed])"
proof -
  have q: "Some [] = None \<or> Some [] = Some ([]::ustring)" "None = None \<or> None = Some ([]::ustring)"
    by simp_all
  note a = search_without_filters_is_list [OF authenticated_ex_caller q(1) q(2), of ex_directory]
  note b = search_without_filters_is_list [OF authenticated_ex_caller q(2) q(2), of ex_directory]
  show ?thesis
    using authenticated_ex_caller a b unfolding ex_directory_mine ex_directory_sorted by simp
qed

section \<open>Listing the members of a group\<close>

lemma format_member_unread: "m_unread_count (format_member cg) = 0"
  by (simp add: format_member_def)

lemma GET_members_body:
  "GET_members s g d = Response 200 (MembersBody ms) \<Longrightarrow>
     \<exists>uid grp. authenticated s = Some uid \<and> owned_group uid g d = Some grp
                \<and> ms = map format_member (select_contact_groups uid (gid grp) d)"
  by (auto simp: GET_members_def unauthorized_def group_not_found_def split: option.splits)

text \<open>
  Claim C10.  Every member in a list-members answer has \<open>unread_count\<close> 0; and a membership
  row whose joined contact is absent is formatted with \<open>user_id\<close>, \<open>custom_name\<close> and
  \<open>whatsapp_name\<close> empty.
\<close>

theorem list_members_shape:
  "(GET_members s g d = Response 200 (MembersBody ms) \<longrightarrow> (\<forall>m \<in> set ms. m_unread_count m = 0))
   \<and> m_unread_count (format_member cg) = 0
   \<and> (cgm_contacts cg = None \<longrightarrow>
        m_user_id (format_member cg) = [] \<and> m_custom_name (format_member cg) = []
        \<and> m_whatsapp_name (format_member cg) = [])"
proof -
  have a: "GET_members s g d = Response 200 (MembersBody ms) \<longrightarrow> (\<forall>m \<in> set ms. m_unread_count m = 0)"
    using GET_members_body [of s g d ms] by (auto simp: format_member_unread)
  have b: "cgm_contacts cg = None \<longrightarrow>
        m_user_id (format_member cg) = [] \<and> m_custom_name (format_member cg) = []
        \<and> m_whatsapp_name (format_member cg) = []"
    by (simp add: format_member_def or_empty_def)
  show ?thesis using a b format_member_unread by blast
qed

theorem list_members_shape_witness:
  "GET_members ex_caller ex_id_9 ex_one
     = Response 200 (MembersBody [\<lparr> m_member_id = 1, m_user_id = lit ''15551234567'',
                                     m_custom_name = lit ''Bob'', m_whatsapp_name = [],
                                     m_unread_count = 0 \<rparr>])
   \<and> m_unread_count \<lparr> m_member_id = 1, m_user_id = lit ''15551234567'', m_custom_name = lit ''Bob'',
                        m_whatsapp_name = [], m_unread_count = 0 \<rparr> = 0
   \<and> cgm_contacts ex_orphan = None
   \<and> format_member ex_orphan = \<lparr> m_member_id = 4, m_user_id = [], m_custom_name = [],
                                   m_whatsapp_name = [], m_unread_count = 0 \<rparr>"
proof -
  have g: "GET_members ex_caller ex_id_9 ex_one
     = Response 200 (MembersBody [\<lparr> m_member_id = 1, m_user_id = lit ''15551234567'',
                                     m_custom_name = lit ''Bob'', m_whatsapp_name = [],
                                     m_unread_count = 0 \<rparr>])"
    by (simp add: GET_members_def authenticated_ex_caller owned_group_def uuid_in_examples
          single_def ex_one_def ex_bob_def select_contact_groups_def embed_contact_def
          rls_contact_def format_member_def or_empty_def)
  have n: "cgm_contacts ex_orphan = None"
    by (simp add: ex_orphan_def)
  show ?thesis
    using g n list_members_shape [of ex_caller ex_id_9 ex_one _ ex_orphan]
    by (simp add: ex_orphan_def format_member_def)
qed

section \<open>Saving the group dialog in edit mode\<close>




end
